theory Spec2Isabelle
  imports Main
begin

section \<open>The offline caching worker (src/js/modern/sw.js)\<close>

text \<open>
  The worker is a set of event listeners over three pieces of ambient state: the cache
  storage of the origin (named partitions, each a store of responses keyed by request),
  the network, and a small persistent slot for a deferred RSVP submission. The model
  passes that state explicitly. Every operation on a collaborator (a network fetch, a
  cache read or write) also appends an event to a trace, so that
  "performs no network fetch" and "reads no partition" are statements about the trace.

  Conventions of the model:
  \<^item> a handler is modelled to completion: operations it starts without awaiting them
    (\<^verbatim>\<open>cache.put(...)\<close> in the strategies) have been carried out in the world it
    returns, and one handler runs at a time;
  \<^item> a URL is the string the code sees; a cache entry is keyed by the URL of its request
    (the listener hands only \<^verbatim>\<open>GET\<close> requests to a strategy);
  \<^item> the cache store itself does not fail: \<^verbatim>\<open>open\<close>, \<^verbatim>\<open>match\<close>, \<^verbatim>\<open>put\<close>,
    \<^verbatim>\<open>delete\<close> and \<^verbatim>\<open>keys\<close> always complete; only the network can reject.
\<close>

subsection \<open>Requests, responses, partitions\<close>

record request =
  "method" :: string
  url :: string
  destination :: string

record response =
  status :: nat
  body :: string

text \<open>A partition in insertion order; the cache storage lists its partitions in creation order.\<close>

type_synonym partition = "(string \<times> response) list"

type_synonym cache_storage = "(string \<times> partition) list"

text \<open>The network: what \<^verbatim>\<open>fetch\<close> resolves to for a request, \<open>None\<close> when it rejects.\<close>

type_synonym network = "request \<Rightarrow> response option"

datatype error = NetworkError | TypeError | ReferenceError

datatype 'a promise = Resolved 'a | Rejected error

datatype event =
    Fetch request
  | CachesOpen string
  | CachesMatch string
  | CachesKeys
  | CachesDelete string
  | CacheMatch string string
  | CachePut string string response
  | CacheAddAll string "string list"
  | SkipWaiting
  | ClientsClaim
  | ConsoleLog

text \<open>
  The state around the worker: the cache storage, the persistent slot of the pending
  submission (the worker's own code has no statement that reads or writes it), and the
  trace of what has been done so far.
\<close>

record world =
  caches :: cache_storage
  pending :: "string option"
  trace :: "event list"

subsection \<open>Constants of the worker\<close>

definition STATIC_CACHE :: string where
  "STATIC_CACHE = ''static-v1''"

definition DYNAMIC_CACHE :: string where
  "DYNAMIC_CACHE = ''dynamic-v1''"

definition STATIC_FILES :: "string list" where
  "STATIC_FILES =
     [''/'',
      ''/index.html'',
      ''/css/styles.min.css'',
      ''/js/modern-scripts.js'',
      ''/img/logo.png'',
      ''/img/hero-placeholder.jpg'',
      ''/manifest.json'']"

subsection \<open>The cache store\<close>

text \<open>\<^verbatim>\<open>caches.open(name)\<close> creates the partition when there is none of that name.\<close>

definition storage_open :: "string \<Rightarrow> cache_storage \<Rightarrow> cache_storage" where
  "storage_open name cs = (if name \<in> set (map fst cs) then cs else cs @ [(name, [])])"

text \<open>\<^verbatim>\<open>caches.match(request)\<close> asks every partition, in creation order, and takes the first hit.\<close>

fun storage_match :: "cache_storage \<Rightarrow> string \<Rightarrow> response option" where
  "storage_match [] k = None"
| "storage_match ((name, p) # cs) k =
     (case map_of p k of Some r \<Rightarrow> Some r | None \<Rightarrow> storage_match cs k)"

definition storage_delete :: "string \<Rightarrow> cache_storage \<Rightarrow> cache_storage" where
  "storage_delete name cs = filter (\<lambda>(n, p). n \<noteq> name) cs"

text \<open>\<^verbatim>\<open>cache.put\<close> replaces whatever the partition held for the key.\<close>

definition partition_put :: "string \<Rightarrow> response \<Rightarrow> partition \<Rightarrow> partition" where
  "partition_put k r p = filter (\<lambda>(k', r'). k' \<noteq> k) p @ [(k, r)]"

definition storage_put :: "string \<Rightarrow> string \<Rightarrow> response \<Rightarrow> cache_storage \<Rightarrow> cache_storage" where
  "storage_put name k r cs = map (\<lambda>(n, p). if n = name then (n, partition_put k r p) else (n, p)) cs"

text \<open>What the partition called \<open>name\<close> holds for key \<open>k\<close> (nothing when there is no such partition).\<close>

definition entry :: "cache_storage \<Rightarrow> string \<Rightarrow> string \<Rightarrow> response option" where
  "entry cs name k = (case map_of cs name of None \<Rightarrow> None | Some p \<Rightarrow> map_of p k)"

subsection \<open>Operations on the world\<close>

definition emit :: "event \<Rightarrow> world \<Rightarrow> world" where
  "emit e w = w\<lparr>trace := trace w @ [e]\<rparr>"

definition fetch :: "network \<Rightarrow> request \<Rightarrow> world \<Rightarrow> response option \<times> world" where
  "fetch net request w = (net request, emit (Fetch request) w)"

definition caches_open :: "string \<Rightarrow> world \<Rightarrow> world" where
  "caches_open name w = emit (CachesOpen name) (w\<lparr>caches := storage_open name (caches w)\<rparr>)"

definition caches_match :: "string \<Rightarrow> world \<Rightarrow> response option \<times> world" where
  "caches_match k w = (storage_match (caches w) k, emit (CachesMatch k) w)"

definition caches_keys :: "world \<Rightarrow> string list \<times> world" where
  "caches_keys w = (map fst (caches w), emit CachesKeys w)"

definition caches_delete :: "string \<Rightarrow> world \<Rightarrow> world" where
  "caches_delete name w = emit (CachesDelete name) (w\<lparr>caches := storage_delete name (caches w)\<rparr>)"

definition cache_match :: "string \<Rightarrow> string \<Rightarrow> world \<Rightarrow> response option \<times> world" where
  "cache_match name k w = (entry (caches w) name k, emit (CacheMatch name k) w)"

definition cache_put :: "string \<Rightarrow> string \<Rightarrow> response \<Rightarrow> world \<Rightarrow> world" where
  "cache_put name k r w = emit (CachePut name k r) (w\<lparr>caches := storage_put name k r (caches w)\<rparr>)"

text \<open>
  \<^verbatim>\<open>cache.addAll(urls)\<close>: every URL is requested; the partition is written only when
  every request resolved with an ok status (200 to 299), and otherwise the call rejects
  and writes nothing.
\<close>

definition request_of :: "string \<Rightarrow> request" where
  "request_of u = \<lparr>method = ''GET'', url = u, destination = ''''\<rparr>"

definition ok :: "response \<Rightarrow> bool" where
  "ok r = (200 \<le> status r \<and> status r \<le> 299)"

fun fetch_all :: "network \<Rightarrow> string list \<Rightarrow> (string \<times> response) list option" where
  "fetch_all net [] = Some []"
| "fetch_all net (u # us) =
     (case net (request_of u) of
        None \<Rightarrow> None
      | Some r \<Rightarrow>
          if ok r
          then (case fetch_all net us of None \<Rightarrow> None | Some rs \<Rightarrow> Some ((u, r) # rs))
          else None)"

definition cache_addAll :: "network \<Rightarrow> string \<Rightarrow> string list \<Rightarrow> world \<Rightarrow> unit promise \<times> world" where
  "cache_addAll net name urls w =
     (let w1 = w\<lparr>trace := trace w @ CacheAddAll name urls # map (\<lambda>u. Fetch (request_of u)) urls\<rparr>
      in case fetch_all net urls of
           None \<Rightarrow> (Rejected TypeError, w1)
         | Some rs \<Rightarrow>
             (Resolved (),
              w1\<lparr>caches := foldl (\<lambda>cs (u, r). storage_put name u r cs) (caches w1) rs\<rparr>))"

subsection \<open>Lifecycle: install and activate\<close>

text \<open>
  The install listener, over the manifest it pre-caches (the worker's own is
  \<open>STATIC_FILES\<close>). The promise is the one handed to \<^verbatim>\<open>event.waitUntil\<close>: when it
  rejects the install attempt has failed.
\<close>

definition install :: "network \<Rightarrow> string list \<Rightarrow> world \<Rightarrow> unit promise \<times> world" where
  "install net files w =
     (case cache_addAll net STATIC_CACHE files (caches_open STATIC_CACHE w) of
        (Resolved u, w1) \<Rightarrow> (Resolved (), emit SkipWaiting w1)
      | (Rejected e, w1) \<Rightarrow> (Rejected e, w1))"

definition activate :: "world \<Rightarrow> unit promise \<times> world" where
  "activate w =
     (case caches_keys w of
        (cacheNames, w1) \<Rightarrow>
          (Resolved (),
           emit ClientsClaim
             (foldl (\<lambda>w' name. caches_delete name w') w1
                (filter (\<lambda>name. name \<noteq> STATIC_CACHE \<and> name \<noteq> DYNAMIC_CACHE) cacheNames))))"

subsection \<open>The three strategies\<close>

text \<open>A strategy resolves to a response, resolves to \<^verbatim>\<open>undefined\<close> (\<open>None\<close>), or rejects.\<close>

definition networkFirst :: "network \<Rightarrow> request \<Rightarrow> world \<Rightarrow> response option promise \<times> world" where
  "networkFirst net request w =
     (case fetch net request w of
        (Some networkResponse, w1) \<Rightarrow>
          (Resolved (Some networkResponse),
           cache_put DYNAMIC_CACHE (url request) networkResponse (caches_open DYNAMIC_CACHE w1))
      | (None, w1) \<Rightarrow>
          (case caches_match (url request) w1 of
             (Some cachedResponse, w2) \<Rightarrow> (Resolved (Some cachedResponse), w2)
           | (None, w2) \<Rightarrow> (Resolved (Some \<lparr>status = 503, body = ''Offline''\<rparr>), w2)))"

definition cacheFirst :: "network \<Rightarrow> request \<Rightarrow> world \<Rightarrow> response option promise \<times> world" where
  "cacheFirst net request w =
     (case caches_match (url request) w of
        (Some cachedResponse, w1) \<Rightarrow> (Resolved (Some cachedResponse), w1)
      | (None, w1) \<Rightarrow>
          (case fetch net request w1 of
             (Some networkResponse, w2) \<Rightarrow>
               (Resolved (Some networkResponse),
                cache_put DYNAMIC_CACHE (url request) networkResponse (caches_open DYNAMIC_CACHE w2))
           | (None, w2) \<Rightarrow>
               if destination request = ''image''
               then (case caches_match ''/img/placeholder.jpg'' w2 of (r, w3) \<Rightarrow> (Resolved r, w3))
               else (Rejected NetworkError, w2)))"

definition staleWhileRevalidate :: "network \<Rightarrow> request \<Rightarrow> world \<Rightarrow> response option promise \<times> world" where
  "staleWhileRevalidate net request w =
     (case cache_match DYNAMIC_CACHE (url request) (caches_open DYNAMIC_CACHE w) of
        (cachedResponse, w1) \<Rightarrow>
          (case fetch net request w1 of
             (fetched, w2) \<Rightarrow>
               (let fetchPromise =
                      (case fetched of
                         Some networkResponse \<Rightarrow> Resolved (Some networkResponse)
                       | None \<Rightarrow> Rejected NetworkError);
                    w3 =
                      (case fetched of
                         Some networkResponse \<Rightarrow>
                           cache_put DYNAMIC_CACHE (url request) networkResponse w2
                       | None \<Rightarrow> w2)
                in (case cachedResponse of
                      Some c \<Rightarrow> (Resolved (Some c), w3)
                    | None \<Rightarrow> (fetchPromise, w3)))))"

subsection \<open>The fetch listener\<close>

text \<open>\<^verbatim>\<open>String.prototype.includes\<close>: the second string occurs somewhere in the first.\<close>

fun str_includes :: "string \<Rightarrow> string \<Rightarrow> bool" where
  "str_includes [] sub = (sub = [])"
| "str_includes (c # cs) sub = (take (length sub) (c # cs) = sub \<or> str_includes cs sub)"

text \<open>
  A listener that returns without calling \<^verbatim>\<open>event.respondWith\<close> leaves the request to
  the browser's own network handling (\<open>PassThrough\<close>).
\<close>

datatype interception = PassThrough | RespondWith "response option promise"

definition on_fetch :: "network \<Rightarrow> request \<Rightarrow> world \<Rightarrow> interception \<times> world" where
  "on_fetch net request w =
     (if method request \<noteq> ''GET'' then (PassThrough, w)
      else if str_includes (url request) ''/api/'' then
        (case networkFirst net request w of (p, w') \<Rightarrow> (RespondWith p, w'))
      else if destination request = ''image'' then
        (case cacheFirst net request w of (p, w') \<Rightarrow> (RespondWith p, w'))
      else
        (case staleWhileRevalidate net request w of (p, w') \<Rightarrow> (RespondWith p, w')))"

text \<open>The three branches of the listener, named as the specification names them.\<close>

datatype category = API | IMAGE | OTHER

definition classify :: "request \<Rightarrow> category" where
  "classify request =
     (if str_includes (url request) ''/api/'' then API
      else if destination request = ''image'' then IMAGE
      else OTHER)"

subsection \<open>Deferred RSVP submission\<close>

text \<open>
  \<^verbatim>\<open>syncRSVP\<close> calls \<^verbatim>\<open>getStoredRSVP\<close> and \<^verbatim>\<open>clearStoredRSVP\<close>. A worker's global
  scope holds what its script declares and what \<^verbatim>\<open>importScripts\<close> brings in;
  \<^verbatim>\<open>sw.js\<close> declares neither function and imports no script, and no other source file
  defines them. Evaluating an unbound identifier throws \<^verbatim>\<open>ReferenceError\<close>. The model
  passes the bindings of the two names explicitly, \<open>None\<close> for a name that is unbound,
  and \<open>sw_scope\<close> is the scope the worker really runs in.
\<close>

record bindings =
  getStoredRSVP :: "(world \<Rightarrow> string option \<times> world) option"
  clearStoredRSVP :: "(world \<Rightarrow> world) option"

definition sw_scope :: bindings where
  "sw_scope = \<lparr>getStoredRSVP = None, clearStoredRSVP = None\<rparr>"

text \<open>The request of \<^verbatim>\<open>syncRSVP\<close>; the serialised submission is its body, which the model leaves out.\<close>

definition rsvp_request :: request where
  "rsvp_request = \<lparr>method = ''POST'', url = ''/api/rsvp'', destination = ''''\<rparr>"

text \<open>
  The first call is outside the \<^verbatim>\<open>try\<close> block, so an unbound \<^verbatim>\<open>getStoredRSVP\<close>
  rejects the promise of \<^verbatim>\<open>syncRSVP\<close>; the second is inside it, so an unbound
  \<^verbatim>\<open>clearStoredRSVP\<close> ends in the \<^verbatim>\<open>catch\<close> branch, like a rejected fetch.
\<close>

definition syncRSVP :: "bindings \<Rightarrow> network \<Rightarrow> world \<Rightarrow> unit promise \<times> world" where
  "syncRSVP scope net w =
     (case getStoredRSVP scope of
        None \<Rightarrow> (Rejected ReferenceError, w)
      | Some get \<Rightarrow>
          (case get w of
             (Some rsvpData, w1) \<Rightarrow>
               (case fetch net rsvp_request w1 of
                  (Some r, w2) \<Rightarrow>
                    (case clearStoredRSVP scope of
                       Some clear \<Rightarrow> (Resolved (), clear w2)
                     | None \<Rightarrow> (Resolved (), emit ConsoleLog w2))
                | (None, w2) \<Rightarrow> (Resolved (), emit ConsoleLog w2))
           | (None, w1) \<Rightarrow> (Resolved (), w1)))"

text \<open>The sync listener; the promise is the one handed to \<^verbatim>\<open>event.waitUntil\<close>.\<close>

definition on_sync :: "network \<Rightarrow> string \<Rightarrow> world \<Rightarrow> unit promise \<times> world" where
  "on_sync net tag w = (if tag = ''rsvp-sync'' then syncRSVP sw_scope net w else (Resolved (), w))"

subsection \<open>Fixtures for the concrete runs\<close>

text \<open>
  Networks: one on which every fetch rejects, one that answers everything, one that serves
  exactly the worker's manifest, and one on which only \<^verbatim>\<open>/logo.png\<close> is unreachable.
\<close>

definition offline :: network where
  "offline request = None"

definition always_up :: network where
  "always_up request = Some \<lparr>status = 200, body = ''fresh''\<rparr>"

definition serving_manifest :: network where
  "serving_manifest request =
     (if url request \<in> set STATIC_FILES then Some \<lparr>status = 200, body = url request\<rparr> else None)"

definition logo_down :: network where
  "logo_down request =
     (if url request = ''/logo.png'' then None else Some \<lparr>status = 200, body = ''ok''\<rparr>)"

text \<open>
  Worlds: one with no partition at all; the one a first install and activation leave
  behind when every manifest asset was served; and two hand-made ones.
\<close>

definition fresh :: world where
  "fresh = \<lparr>caches = [], pending = None, trace = []\<rparr>"

definition installed :: world where
  "installed = snd (activate (snd (install serving_manifest STATIC_FILES fresh)))"

definition static_only_api :: world where
  "static_only_api =
     \<lparr>caches = [(''static-v1'', [(''/api/data'', \<lparr>status = 200, body = ''cached''\<rparr>)]),
                (''dynamic-v1'', [])],
      pending = None, trace = []\<rparr>"

definition stale_dynamic :: world where
  "stale_dynamic =
     \<lparr>caches = [(''static-v1'', []),
                (''dynamic-v1'',
                 [(''/api/data'', \<lparr>status = 200, body = ''old''\<rparr>),
                  (''/index.html'', \<lparr>status = 200, body = ''old page''\<rparr>)])],
      pending = None, trace = []\<rparr>"

text \<open>Requests.\<close>

definition api_data :: request where
  "api_data = \<lparr>method = ''GET'', url = ''/api/data'', destination = ''''\<rparr>"

definition photo :: request where
  "photo = \<lparr>method = ''GET'', url = ''/img/photo.jpg'', destination = ''image''\<rparr>"

definition logo :: request where
  "logo = \<lparr>method = ''GET'', url = ''/img/logo.png'', destination = ''image''\<rparr>"

definition index_page :: request where
  "index_page = \<lparr>method = ''GET'', url = ''/index.html'', destination = ''document''\<rparr>"

section \<open>Lemmas about the cache store\<close>

lemma map_of_partition_put:
  "map_of (partition_put k r p) k' = (if k' = k then Some r else map_of p k')"
  by (induction p) (auto simp: partition_put_def)

lemma map_of_storage_put:
  "map_of (storage_put name k r cs) n =
     (case map_of cs n of
        None \<Rightarrow> None
      | Some p \<Rightarrow> Some (if n = name then partition_put k r p else p))"
  by (induction cs) (auto simp: storage_put_def)

lemma map_of_storage_open:
  "map_of (storage_open name cs) n =
     (if n = name \<and> map_of cs n = None then Some [] else map_of cs n)"
proof (cases "name \<in> set (map fst cs)")
  case True
  then have "map_of cs name \<noteq> None" by (simp add: map_of_eq_None_iff)
  with True show ?thesis by (auto simp: storage_open_def)
next
  case False
  then have "map_of cs name = None" by (simp add: map_of_eq_None_iff)
  with False show ?thesis by (auto simp: storage_open_def map_add_def split: option.splits)
qed

text \<open>Opening a partition changes no entry; a put changes the one entry it writes.\<close>

lemma entry_storage_open: "entry (storage_open name cs) n k = entry cs n k"
  by (auto simp: entry_def map_of_storage_open)

lemma entry_storage_put:
  "entry (storage_put name k r cs) n k' =
     (if n = name \<and> k' = k \<and> map_of cs n \<noteq> None then Some r else entry cs n k')"
  by (auto simp: entry_def map_of_storage_put map_of_partition_put split: option.splits)

lemma entry_put_after_open:
  "entry (storage_put name k r (storage_open name cs)) n k' =
     (if n = name \<and> k' = k then Some r else entry cs n k')"
  by (auto simp: entry_storage_put entry_storage_open map_of_storage_open)

text \<open>The search over all partitions misses exactly when every partition misses.\<close>

lemma storage_match_None:
  "storage_match cs k = None \<longleftrightarrow> (\<forall>(n, p) \<in> set cs. map_of p k = None)"
  by (induction cs) (auto split: option.splits)

lemma storage_match_Some:
  "storage_match cs k = Some c \<Longrightarrow> \<exists>(n, p) \<in> set cs. map_of p k = Some c"
  by (induction cs) (auto split: option.splits)

lemma storage_match_hit:
  "(n, p) \<in> set cs \<Longrightarrow> map_of p k = Some c \<Longrightarrow> storage_match cs k \<noteq> None"
  by (induction cs) (auto split: option.splits)

lemma storage_match_only:
  "map_of cs name = Some p \<Longrightarrow> map_of p k = Some c \<Longrightarrow>
   (\<forall>(n, q) \<in> set cs. n \<noteq> name \<longrightarrow> map_of q k = None) \<Longrightarrow> storage_match cs k = Some c"
  by (induction cs) (auto split: option.splits if_splits)

lemma entry_Some_hit: "entry cs name k = Some c \<Longrightarrow> storage_match cs k \<noteq> None"
proof -
  assume "entry cs name k = Some c"
  then obtain p where "map_of cs name = Some p" and "map_of p k = Some c"
    by (auto simp: entry_def split: option.splits)
  then show ?thesis
    using storage_match_hit [of name p cs k c] by (simp add: map_of_SomeD)
qed

lemma entry_of_member:
  "distinct (map fst cs) \<Longrightarrow> (n, p) \<in> set cs \<Longrightarrow> entry cs n k = map_of p k"
  by (simp add: entry_def)

text \<open>One rejected fetch makes the whole batch of \<^verbatim>\<open>addAll\<close> fail.\<close>

lemma fetch_all_fails:
  "u \<in> set files \<Longrightarrow> net (request_of u) = None \<Longrightarrow> fetch_all net files = None"
  by (induction files) (auto split: option.splits)

text \<open>The deletion loop of activation.\<close>

lemma caches_foldl_delete:
  "caches (foldl (\<lambda>w' name. caches_delete name w') w ns) =
     filter (\<lambda>(n, p). n \<notin> set ns) (caches w)"
  by (induction ns arbitrary: w)
    (auto simp: caches_delete_def emit_def storage_delete_def intro: filter_cong)

lemma trace_foldl_delete:
  "trace (foldl (\<lambda>w' name. caches_delete name w') w ns) = trace w @ map CachesDelete ns"
  by (induction ns arbitrary: w) (auto simp: caches_delete_def emit_def)

text \<open>What a first install and activation leave in the cache storage.\<close>

lemma caches_installed:
  "caches installed =
     [(''static-v1'',
       [(''/'', \<lparr>status = 200, body = ''/''\<rparr>),
        (''/index.html'', \<lparr>status = 200, body = ''/index.html''\<rparr>),
        (''/css/styles.min.css'', \<lparr>status = 200, body = ''/css/styles.min.css''\<rparr>),
        (''/js/modern-scripts.js'', \<lparr>status = 200, body = ''/js/modern-scripts.js''\<rparr>),
        (''/img/logo.png'', \<lparr>status = 200, body = ''/img/logo.png''\<rparr>),
        (''/img/hero-placeholder.jpg'', \<lparr>status = 200, body = ''/img/hero-placeholder.jpg''\<rparr>),
        (''/manifest.json'', \<lparr>status = 200, body = ''/manifest.json''\<rparr>)])]"
  by (simp add: installed_def activate_def install_def cache_addAll_def caches_open_def
      caches_keys_def caches_delete_def emit_def fresh_def serving_manifest_def STATIC_FILES_def
      STATIC_CACHE_def DYNAMIC_CACHE_def storage_open_def storage_put_def partition_put_def
      storage_delete_def request_of_def ok_def Let_def)

text \<open>
  The last branch of \<^verbatim>\<open>cacheFirst\<close>: for a request that is not an image, a miss followed
  by a rejected fetch rejects the strategy's promise.
\<close>

lemma cacheFirst_other_kind_propagates:
  "storage_match (caches w) (url request) = None \<Longrightarrow> net request = None \<Longrightarrow>
   destination request \<noteq> ''image'' \<Longrightarrow> fst (cacheFirst net request w) = Rejected NetworkError"
  by (simp add: cacheFirst_def caches_match_def fetch_def)

text \<open>
  What the body of \<^verbatim>\<open>syncRSVP\<close> does once \<^verbatim>\<open>getStoredRSVP\<close> is bound to a reader
  that finds nothing: it resolves, and the reader is all that ran.
\<close>

lemma syncRSVP_bound_reader_finds_nothing:
  "getStoredRSVP scope = Some get \<Longrightarrow> fst (get w) = None \<Longrightarrow>
   syncRSVP scope net w = (Resolved (), snd (get w))"
  by (simp add: syncRSVP_def split_beta)

section \<open>Properties\<close>

subsection \<open>Cache-First\<close>

text \<open>
  C1. For a \<^verbatim>\<open>GET\<close> request classified \<open>IMAGE\<close> whose URL has an entry in the dynamic
  or in the static partition, the listener answers with a stored response \<open>c\<close> and the
  only event is the search of the cache storage: no fetch, no write. The response is the
  first hit of the search over the partitions in creation order, so it is an entry some
  partition holds for this URL; when no partition other than the static and the dynamic
  one holds an entry for the URL (as after activation, which deletes every other
  partition), it is the entry of the static or of the dynamic partition.
\<close>

theorem image_cache_hit_skips_network:
  assumes "method request = ''GET''" and "classify request = IMAGE"
    and "entry (caches w) DYNAMIC_CACHE (url request) \<noteq> None \<or>
         entry (caches w) STATIC_CACHE (url request) \<noteq> None"
  shows "\<exists>c. on_fetch net request w =
               (RespondWith (Resolved (Some c)), w\<lparr>trace := trace w @ [CachesMatch (url request)]\<rparr>) \<and>
             storage_match (caches w) (url request) = Some c \<and>
             (\<exists>(n, p) \<in> set (caches w). map_of p (url request) = Some c) \<and>
             (distinct (map fst (caches w)) \<and>
              (\<forall>(n, p) \<in> set (caches w).
                 n \<noteq> STATIC_CACHE \<and> n \<noteq> DYNAMIC_CACHE \<longrightarrow> map_of p (url request) = None)
              \<longrightarrow> entry (caches w) STATIC_CACHE (url request) = Some c \<or>
                  entry (caches w) DYNAMIC_CACHE (url request) = Some c)"
proof -
  from assms(2) have image: "\<not> str_includes (url request) ''/api/''" "destination request = ''image''"
    by (simp_all add: classify_def split: if_splits)
  from assms(3) obtain name c' where "entry (caches w) name (url request) = Some c'"
    by auto
  then have "storage_match (caches w) (url request) \<noteq> None"
    by (rule entry_Some_hit)
  then obtain c where hit: "storage_match (caches w) (url request) = Some c"
    by auto
  from hit obtain n p where np: "(n, p) \<in> set (caches w)" "map_of p (url request) = Some c"
    using storage_match_Some by fastforce
  have run: "on_fetch net request w =
      (RespondWith (Resolved (Some c)), w\<lparr>trace := trace w @ [CachesMatch (url request)]\<rparr>)"
    using assms(1) image hit
    by (simp add: on_fetch_def cacheFirst_def caches_match_def emit_def)
  have which: "entry (caches w) STATIC_CACHE (url request) = Some c \<or>
               entry (caches w) DYNAMIC_CACHE (url request) = Some c"
    if d: "distinct (map fst (caches w))"
      and o: "\<forall>(n, p) \<in> set (caches w).
                n \<noteq> STATIC_CACHE \<and> n \<noteq> DYNAMIC_CACHE \<longrightarrow> map_of p (url request) = None"
  proof -
    from o np have "n = STATIC_CACHE \<or> n = DYNAMIC_CACHE" by auto
    moreover from d np have "entry (caches w) n (url request) = Some c"
      by (simp add: entry_of_member)
    ultimately show ?thesis by auto
  qed
  from run hit np which show ?thesis by blast
qed

theorem image_cache_hit_skips_network_witness:
  "method logo = ''GET'' \<and> classify logo = IMAGE \<and>
   entry (caches installed) STATIC_CACHE (url logo) = Some \<lparr>status = 200, body = ''/img/logo.png''\<rparr> \<and>
   on_fetch offline logo installed =
     (RespondWith (Resolved (Some \<lparr>status = 200, body = ''/img/logo.png''\<rparr>)),
      installed\<lparr>trace := trace installed @ [CachesMatch ''/img/logo.png'']\<rparr>)"
  using image_cache_hit_skips_network [of logo installed offline]
  by (auto simp: caches_installed logo_def classify_def entry_def STATIC_CACHE_def DYNAMIC_CACHE_def)

text \<open>
  C2. The claim asks that an uncached image request whose fetch fails gets a placeholder
  image out of the static partition. The code looks up \<^verbatim>\<open>/img/placeholder.jpg\<close>, a URL
  the manifest does not list (it lists \<^verbatim>\<open>/img/hero-placeholder.jpg\<close>), so no install
  ever stores it. Run on the world a successful first install and activation leave
  behind: the request for \<^verbatim>\<open>/img/photo.jpg\<close> is an uncached \<open>IMAGE\<close> request, the
  network is down, and the strategy resolves to \<^verbatim>\<open>undefined\<close> (\<open>Resolved None\<close>),
  not to a stored response.
\<close>

theorem placeholder_absent_after_install:
  "fst (install serving_manifest STATIC_FILES fresh) = Resolved () \<and>
   method photo = ''GET'' \<and> classify photo = IMAGE \<and>
   storage_match (caches installed) (url photo) = None \<and>
   offline photo = None \<and>
   fst (on_fetch offline photo installed) = RespondWith (Resolved None)"
proof -
  have "fst (install serving_manifest STATIC_FILES fresh) = Resolved ()"
    by (simp add: install_def cache_addAll_def serving_manifest_def STATIC_FILES_def
        request_of_def ok_def Let_def)
  moreover have "method photo = ''GET''" "classify photo = IMAGE" "offline photo = None"
    by (simp_all add: photo_def classify_def offline_def)
  moreover have "storage_match (caches installed) (url photo) = None"
    by (simp add: caches_installed photo_def)
  moreover have "storage_match (caches installed) ''/img/placeholder.jpg'' = None"
    by (simp add: caches_installed)
  ultimately show ?thesis
    by (simp add: on_fetch_def cacheFirst_def caches_match_def fetch_def emit_def
        classify_def photo_def split: if_splits)
qed

subsection \<open>Network-First\<close>

text \<open>
  C3, as stated, fails: the fallback of \<^verbatim>\<open>networkFirst\<close> is \<^verbatim>\<open>caches.match\<close>, the
  search over every partition, not a lookup in the dynamic partition. With
  \<^verbatim>\<open>/api/data\<close> stored in the static partition only and the network down, the
  listener answers with that stored response, not with the synthetic 503.
\<close>

theorem network_first_static_entry_counterexample:
  "method api_data = ''GET'' \<and> classify api_data = API \<and> offline api_data = None \<and>
   entry (caches static_only_api) DYNAMIC_CACHE (url api_data) = None \<and>
   entry (caches static_only_api) STATIC_CACHE (url api_data) =
     Some \<lparr>status = 200, body = ''cached''\<rparr> \<and>
   fst (on_fetch offline api_data static_only_api) =
     RespondWith (Resolved (Some \<lparr>status = 200, body = ''cached''\<rparr>)) \<and>
   fst (on_fetch offline api_data static_only_api) \<noteq>
     RespondWith (Resolved (Some \<lparr>status = 503, body = ''Offline''\<rparr>))"
  by (simp add: api_data_def classify_def offline_def static_only_api_def entry_def
      DYNAMIC_CACHE_def STATIC_CACHE_def on_fetch_def networkFirst_def fetch_def
      caches_match_def emit_def)

text \<open>
  C3, amended. For a \<^verbatim>\<open>GET\<close> request classified \<open>API\<close> whose fetch fails, the listener
  answers with the first entry any partition holds for the URL, searching the partitions
  in creation order, and with the synthetic response of status 503 when the search
  misses; it writes nothing. The search misses exactly when no partition (the static one
  included) holds an entry, and an entry that a single partition holds, the dynamic one
  for instance, is the one returned.
\<close>

theorem network_first_offline_fallback:
  assumes "method request = ''GET''" and "classify request = API" and "net request = None"
  shows "on_fetch net request w =
           (RespondWith (Resolved (Some (case storage_match (caches w) (url request) of
                                           Some cachedResponse \<Rightarrow> cachedResponse
                                         | None \<Rightarrow> \<lparr>status = 503, body = ''Offline''\<rparr>))),
            w\<lparr>trace := trace w @ [Fetch request, CachesMatch (url request)]\<rparr>) \<and>
         (storage_match (caches w) (url request) = None \<longleftrightarrow>
            (\<forall>(n, p) \<in> set (caches w). map_of p (url request) = None)) \<and>
         (\<forall>name c. entry (caches w) name (url request) = Some c \<and>
                (\<forall>(n, p) \<in> set (caches w). n \<noteq> name \<longrightarrow> map_of p (url request) = None)
            \<longrightarrow> storage_match (caches w) (url request) = Some c)"
proof -
  from assms(2) have api: "str_includes (url request) ''/api/''"
    by (simp add: classify_def split: if_splits)
  have run: "on_fetch net request w =
           (RespondWith (Resolved (Some (case storage_match (caches w) (url request) of
                                           Some cachedResponse \<Rightarrow> cachedResponse
                                         | None \<Rightarrow> \<lparr>status = 503, body = ''Offline''\<rparr>))),
            w\<lparr>trace := trace w @ [Fetch request, CachesMatch (url request)]\<rparr>)"
    using assms(1,3) api
    by (simp add: on_fetch_def networkFirst_def fetch_def caches_match_def emit_def
        split: option.splits)
  have only: "storage_match (caches w) (url request) = Some c"
    if "entry (caches w) name (url request) = Some c"
      and "\<forall>(n, p) \<in> set (caches w). n \<noteq> name \<longrightarrow> map_of p (url request) = None"
    for name c
    using that storage_match_only [of "caches w" name _ "url request" c]
    by (auto simp: entry_def split: option.splits)
  have none: "storage_match (caches w) (url request) = None \<longleftrightarrow>
            (\<forall>(n, p) \<in> set (caches w). map_of p (url request) = None)"
    by (rule storage_match_None)
  from run none only show ?thesis
    by blast
qed

theorem network_first_offline_fallback_witness:
  "method api_data = ''GET'' \<and> classify api_data = API \<and> offline api_data = None \<and>
   on_fetch offline api_data stale_dynamic =
     (RespondWith (Resolved (Some \<lparr>status = 200, body = ''old''\<rparr>)),
      stale_dynamic\<lparr>trace := [Fetch api_data, CachesMatch ''/api/data'']\<rparr>) \<and>
   on_fetch offline api_data fresh =
     (RespondWith (Resolved (Some \<lparr>status = 503, body = ''Offline''\<rparr>)),
      fresh\<lparr>trace := [Fetch api_data, CachesMatch ''/api/data'']\<rparr>)"
  using network_first_offline_fallback [of api_data offline stale_dynamic]
    network_first_offline_fallback [of api_data offline fresh]
  by (simp add: api_data_def classify_def offline_def stale_dynamic_def fresh_def)

text \<open>
  C4. For a \<^verbatim>\<open>GET\<close> request classified \<open>API\<close> whose fetch succeeds with \<open>r\<close>, the
  listener answers with \<open>r\<close>, and afterwards the dynamic partition holds \<open>r\<close> for the
  URL, whatever it held before; every other entry of every partition is unchanged.
\<close>

theorem network_first_success_refreshes_dynamic:
  assumes "method request = ''GET''" and "classify request = API" and "net request = Some r"
  shows "fst (on_fetch net request w) = RespondWith (Resolved (Some r)) \<and>
         entry (caches (snd (on_fetch net request w))) DYNAMIC_CACHE (url request) = Some r \<and>
         (\<forall>name k. \<not> (name = DYNAMIC_CACHE \<and> k = url request) \<longrightarrow>
            entry (caches (snd (on_fetch net request w))) name k = entry (caches w) name k)"
proof -
  from assms(2) have api: "str_includes (url request) ''/api/''"
    by (simp add: classify_def split: if_splits)
  have nf: "networkFirst net request w =
      (Resolved (Some r),
       cache_put DYNAMIC_CACHE (url request) r (caches_open DYNAMIC_CACHE (emit (Fetch request) w)))"
    using assms(3) by (simp add: networkFirst_def fetch_def)
  have "caches (cache_put DYNAMIC_CACHE (url request) r
                 (caches_open DYNAMIC_CACHE (emit (Fetch request) w)))
      = storage_put DYNAMIC_CACHE (url request) r (storage_open DYNAMIC_CACHE (caches w))"
    by (simp add: cache_put_def caches_open_def emit_def)
  with nf api assms(1) show ?thesis
    by (simp add: on_fetch_def entry_put_after_open)
qed

theorem network_first_success_refreshes_dynamic_witness:
  "method api_data = ''GET'' \<and> classify api_data = API \<and>
   always_up api_data = Some \<lparr>status = 200, body = ''fresh''\<rparr> \<and>
   entry (caches stale_dynamic) DYNAMIC_CACHE (url api_data) = Some \<lparr>status = 200, body = ''old''\<rparr> \<and>
   fst (on_fetch always_up api_data stale_dynamic) =
     RespondWith (Resolved (Some \<lparr>status = 200, body = ''fresh''\<rparr>)) \<and>
   entry (caches (snd (on_fetch always_up api_data stale_dynamic))) DYNAMIC_CACHE (url api_data) =
     Some \<lparr>status = 200, body = ''fresh''\<rparr>"
  using network_first_success_refreshes_dynamic
    [of api_data always_up "\<lparr>status = 200, body = ''fresh''\<rparr>" stale_dynamic]
  by (simp add: api_data_def classify_def always_up_def stale_dynamic_def entry_def
      DYNAMIC_CACHE_def)

subsection \<open>Stale-While-Revalidate\<close>

text \<open>
  C5. For a \<^verbatim>\<open>GET\<close> request classified \<open>OTHER\<close> whose URL has the entry \<open>c\<close> in the
  dynamic partition, the listener answers with \<open>c\<close>. The answer is the same for any two
  networks, so it does not depend on whether the fetch succeeds; the fetch is started all
  the same (it is in the trace).
\<close>

theorem stale_while_revalidate_serves_cached:
  assumes "method request = ''GET''" and "classify request = OTHER"
    and "entry (caches w) DYNAMIC_CACHE (url request) = Some c"
  shows "fst (on_fetch net request w) = RespondWith (Resolved (Some c)) \<and>
         fst (on_fetch net' request w) = fst (on_fetch net request w) \<and>
         Fetch request \<in> set (trace (snd (on_fetch net request w)))"
proof -
  from assms(2) have other: "\<not> str_includes (url request) ''/api/''" "destination request \<noteq> ''image''"
    by (simp_all add: classify_def split: if_splits)
  have m: "cache_match DYNAMIC_CACHE (url request) (caches_open DYNAMIC_CACHE w)
      = (Some c, emit (CacheMatch DYNAMIC_CACHE (url request)) (caches_open DYNAMIC_CACHE w))"
    using assms(3) by (simp add: cache_match_def caches_open_def emit_def entry_storage_open)
  have "fst (staleWhileRevalidate n request w) = Resolved (Some c) \<and>
        Fetch request \<in> set (trace (snd (staleWhileRevalidate n request w)))" for n
    unfolding staleWhileRevalidate_def m
    by (cases "n request") (simp_all add: fetch_def cache_put_def emit_def)
  from this [of net] this [of net'] other assms(1) show ?thesis
    by (simp add: on_fetch_def split_beta)
qed

theorem stale_while_revalidate_serves_cached_witness:
  "method index_page = ''GET'' \<and> classify index_page = OTHER \<and>
   entry (caches stale_dynamic) DYNAMIC_CACHE (url index_page) =
     Some \<lparr>status = 200, body = ''old page''\<rparr> \<and>
   fst (on_fetch offline index_page stale_dynamic) =
     RespondWith (Resolved (Some \<lparr>status = 200, body = ''old page''\<rparr>)) \<and>
   fst (on_fetch always_up index_page stale_dynamic) = fst (on_fetch offline index_page stale_dynamic) \<and>
   Fetch index_page \<in> set (trace (snd (on_fetch offline index_page stale_dynamic)))"
  using stale_while_revalidate_serves_cached
    [of index_page stale_dynamic "\<lparr>status = 200, body = ''old page''\<rparr>" offline always_up]
  by (simp add: index_page_def classify_def stale_dynamic_def entry_def DYNAMIC_CACHE_def)

text \<open>
  C10. Stale-While-Revalidate reads the dynamic partition only. For a \<^verbatim>\<open>GET\<close> request
  classified \<open>OTHER\<close> whose URL has an entry in the static partition and none in the
  dynamic one, the answer is the outcome of the fetch: the network's response when it
  succeeds, the failure when it fails. The static entry plays no part.
\<close>

theorem stale_while_revalidate_ignores_static:
  assumes "method request = ''GET''" and "classify request = OTHER"
    and "entry (caches w) STATIC_CACHE (url request) = Some s"
    and "entry (caches w) DYNAMIC_CACHE (url request) = None"
  shows "fst (on_fetch net request w) =
           RespondWith (case net request of
                          Some networkResponse \<Rightarrow> Resolved (Some networkResponse)
                        | None \<Rightarrow> Rejected NetworkError) \<and>
         Fetch request \<in> set (trace (snd (on_fetch net request w)))"
proof -
  from assms(2) have other: "\<not> str_includes (url request) ''/api/''" "destination request \<noteq> ''image''"
    by (simp_all add: classify_def split: if_splits)
  have m: "cache_match DYNAMIC_CACHE (url request) (caches_open DYNAMIC_CACHE w)
      = (None, emit (CacheMatch DYNAMIC_CACHE (url request)) (caches_open DYNAMIC_CACHE w))"
    using assms(4) by (simp add: cache_match_def caches_open_def emit_def entry_storage_open)
  have "fst (staleWhileRevalidate net request w) =
          (case net request of
             Some networkResponse \<Rightarrow> Resolved (Some networkResponse)
           | None \<Rightarrow> Rejected NetworkError) \<and>
        Fetch request \<in> set (trace (snd (staleWhileRevalidate net request w)))"
    unfolding staleWhileRevalidate_def m
    by (cases "net request") (simp_all add: fetch_def cache_put_def emit_def)
  with other assms(1) show ?thesis
    by (simp add: on_fetch_def split_beta)
qed

theorem stale_while_revalidate_ignores_static_witness:
  "method index_page = ''GET'' \<and> classify index_page = OTHER \<and>
   entry (caches installed) STATIC_CACHE (url index_page) =
     Some \<lparr>status = 200, body = ''/index.html''\<rparr> \<and>
   entry (caches installed) DYNAMIC_CACHE (url index_page) = None \<and>
   fst (on_fetch offline index_page installed) = RespondWith (Rejected NetworkError) \<and>
   fst (on_fetch always_up index_page installed) =
     RespondWith (Resolved (Some \<lparr>status = 200, body = ''fresh''\<rparr>))"
  using stale_while_revalidate_ignores_static
      [of index_page installed "\<lparr>status = 200, body = ''/index.html''\<rparr>" offline]
    stale_while_revalidate_ignores_static
      [of index_page installed "\<lparr>status = 200, body = ''/index.html''\<rparr>" always_up]
  by (simp add: caches_installed index_page_def classify_def entry_def STATIC_CACHE_def
      DYNAMIC_CACHE_def offline_def always_up_def)

subsection \<open>Requests that are not intercepted\<close>

text \<open>
  C6. A request whose method is not \<^verbatim>\<open>GET\<close> is left to the network: the listener
  answers \<open>PassThrough\<close> and returns the world it was given, so no strategy ran, the
  trace has no new event (no partition was read or written, nothing was fetched by the
  worker) and every partition holds what it held.
\<close>

theorem non_get_passes_through:
  "method request \<noteq> ''GET'' \<Longrightarrow> on_fetch net request w = (PassThrough, w)"
  by (simp add: on_fetch_def)

theorem non_get_passes_through_witness:
  "method \<lparr>method = ''POST'', url = ''/api/rsvp'', destination = ''''\<rparr> \<noteq> ''GET'' \<and>
   on_fetch offline \<lparr>method = ''POST'', url = ''/api/rsvp'', destination = ''''\<rparr> stale_dynamic
   = (PassThrough, stale_dynamic)"
  using non_get_passes_through
    [of "\<lparr>method = ''POST'', url = ''/api/rsvp'', destination = ''''\<rparr>" offline stale_dynamic]
  by simp

subsection \<open>Lifecycle\<close>

text \<open>
  C7. Activation keeps the partitions named as the current static or dynamic partition,
  untouched and in order, and deletes the rest. A second activation right after the first
  leaves the cache storage as the first left it, and the only events it adds are the
  listing of the partition names and the claim of the clients: it deletes nothing.
\<close>

theorem activate_idempotent:
  "caches (snd (activate w)) =
     filter (\<lambda>(n, p). n = STATIC_CACHE \<or> n = DYNAMIC_CACHE) (caches w) \<and>
   caches (snd (activate (snd (activate w)))) = caches (snd (activate w)) \<and>
   trace (snd (activate (snd (activate w)))) =
     trace (snd (activate w)) @ [CachesKeys, ClientsClaim] \<and>
   fst (activate (snd (activate w))) = Resolved ()"
proof -
  have first: "caches (snd (activate v)) =
      filter (\<lambda>(n, p). n = STATIC_CACHE \<or> n = DYNAMIC_CACHE) (caches v)" for v
    by (force simp: activate_def caches_keys_def emit_def caches_foldl_delete intro!: filter_cong)
  have tr: "trace (snd (activate v)) =
      trace v @ CachesKeys #
        map CachesDelete (filter (\<lambda>name. name \<noteq> STATIC_CACHE \<and> name \<noteq> DYNAMIC_CACHE)
                            (map fst (caches v))) @ [ClientsClaim]" for v
    by (simp add: activate_def caches_keys_def emit_def trace_foldl_delete)
  have nothing: "filter (\<lambda>name. name \<noteq> STATIC_CACHE \<and> name \<noteq> DYNAMIC_CACHE)
                   (map fst (caches (snd (activate w)))) = []"
    by (auto simp: first filter_empty_conv)
  have "caches (snd (activate (snd (activate w)))) = caches (snd (activate w))"
    by (simp add: first [of "snd (activate w)"]) (simp add: first)
  with first [of w] tr [of "snd (activate w)"] nothing show ?thesis
    by (simp add: activate_def caches_keys_def)
qed

text \<open>
  C8. For every manifest with an asset whose fetch fails, the promise of the install
  listener rejects, so the install attempt fails; \<^verbatim>\<open>skipWaiting\<close> is never signalled;
  and no entry of any partition changes: the static partition is opened (created empty
  when it was not there) and nothing is put into it.
\<close>

theorem install_failure_commits_nothing:
  assumes "u \<in> set files" and "net (request_of u) = None"
  shows "install net files w =
           (Rejected TypeError,
            w\<lparr>caches := storage_open STATIC_CACHE (caches w),
               trace := trace w @ CachesOpen STATIC_CACHE # CacheAddAll STATIC_CACHE files #
                          map (\<lambda>u. Fetch (request_of u)) files\<rparr>) \<and>
         (\<forall>name k. entry (caches (snd (install net files w))) name k = entry (caches w) name k) \<and>
         SkipWaiting \<notin> set (drop (length (trace w)) (trace (snd (install net files w))))"
proof -
  from assms have "fetch_all net files = None"
    by (rule fetch_all_fails)
  then have run: "install net files w =
           (Rejected TypeError,
            w\<lparr>caches := storage_open STATIC_CACHE (caches w),
               trace := trace w @ CachesOpen STATIC_CACHE # CacheAddAll STATIC_CACHE files #
                          map (\<lambda>u. Fetch (request_of u)) files\<rparr>)"
    by (simp add: install_def cache_addAll_def caches_open_def emit_def Let_def)
  then show ?thesis
    by (auto simp: entry_storage_open)
qed

theorem install_failure_commits_nothing_witness:
  "''/logo.png'' \<in> set [''/'', ''/index.html'', ''/logo.png''] \<and>
   logo_down (request_of ''/logo.png'') = None \<and>
   fst (install logo_down [''/'', ''/index.html'', ''/logo.png''] fresh) = Rejected TypeError \<and>
   caches (snd (install logo_down [''/'', ''/index.html'', ''/logo.png''] fresh)) =
     [(''static-v1'', [])] \<and>
   entry (caches (snd (install logo_down [''/'', ''/index.html'', ''/logo.png''] fresh)))
     STATIC_CACHE ''/'' = None"
  using install_failure_commits_nothing
    [of "''/logo.png''" "[''/'', ''/index.html'', ''/logo.png'']" logo_down fresh]
  by (simp add: logo_down_def request_of_def fresh_def storage_open_def STATIC_CACHE_def entry_def)

subsection \<open>Deferred submission\<close>

text \<open>
  C9. The claim asks that the \<^verbatim>\<open>rsvp-sync\<close> trigger with no pending submission makes
  no network call and raises no error. In the worker as shipped the first statement of
  \<^verbatim>\<open>syncRSVP\<close> calls \<^verbatim>\<open>getStoredRSVP\<close>, a name bound nowhere: on a world with an
  empty slot (and on any other) the promise handed to \<^verbatim>\<open>waitUntil\<close> rejects with
  \<^verbatim>\<open>ReferenceError\<close>. Nothing else happens: the world, its trace included, is
  unchanged, so there is indeed no network call.
\<close>

theorem sync_trigger_raises_reference_error:
  "pending fresh = None \<and>
   on_sync offline ''rsvp-sync'' fresh = (Rejected ReferenceError, fresh) \<and>
   on_sync net ''rsvp-sync'' w = (Rejected ReferenceError, w)"
  by (simp add: on_sync_def syncRSVP_def sw_scope_def fresh_def)

end
